theory Spec2Isabelle
  imports Main "HOL-Library.Word" "HOL-Library.List_Lexorder"
begin

section \<open>Python values\<close>

text \<open>
  A Python \<open>str\<close> is a sequence of Unicode code points, so it is modelled as a list of
  natural numbers. \<open>py\<close> turns an ASCII literal of the source into that form. The order
  on \<open>pystr\<close> is the lexicographic order on code points, which is the order of Python's
  \<open>sorted\<close> on strings and of SQLite's BINARY collation on UTF-8 text.
\<close>

type_synonym pystr = "nat list"

definition py :: "string \<Rightarrow> pystr" where
  "py s = map of_char s"

text \<open>
  The value \<open>request.get_json()\<close> returns: \<open>None\<close>, \<open>bool\<close>, \<open>int\<close>, \<open>float\<close> (its 64 bits),
  \<open>str\<close>, \<open>list\<close>, or \<open>dict\<close> (the association list of its items, looked up with \<open>map_of\<close>).
\<close>

datatype json =
    JNull
  | JBool bool
  | JInt int
  | JFloat "64 word"
  | JString pystr
  | JArray "json list"
  | JObject "(pystr \<times> json) list"

text \<open>The exceptions that leave a view function, and the ones \<open>sys.exit\<close> does not see.\<close>

datatype py_exn = AttributeError | TypeError | BadRequest

text \<open>
  What a view returns: a body and a status. \<open>return '', 418\<close> is a text body;
  \<open>jsonify(x)\<close> is a JSON body.
\<close>

datatype body = Text pystr | Jsonify json

type_synonym response = "body \<times> nat"

section \<open>The measure catalog (app.py, VALID_MEASURES)\<close>

definition VALID_MEASURES :: "pystr set" where
  "VALID_MEASURES = {
     py ''Violent crime rate'',
     py ''Unemployment'',
     py ''Children in poverty'',
     py ''Diabetic screening'',
     py ''Mammography screening'',
     py ''Preventable hospital stays'',
     py ''Uninsured'',
     py ''Sexually transmitted infections'',
     py ''Physical inactivity'',
     py ''Adult obesity'',
     py ''Premature Death'',
     py ''Daily fine particulate matter''}"

text \<open>
  \<open>sorted(list(VALID_MEASURES))\<close>: whatever order the set is iterated in, the result is
  the ascending list of its distinct elements (lemma \<open>sorted_of_any_listing\<close> below).
\<close>

definition sorted_valid_measures :: "pystr list" where
  "sorted_valid_measures = sorted_list_of_set VALID_MEASURES"

text \<open>GET /measures\<close>

definition get_measures :: response where
  "get_measures =
     (Jsonify (JObject [(py ''measures'', JArray (map JString sorted_valid_measures))]), 200)"


section \<open>Python string predicates\<close>

text \<open>
  \<open>str.isdigit\<close>: the string is not empty and every character has Numeric\_Type Digit or
  Decimal. The table lists those code points as inclusive ranges (Unicode 14.0.0, the
  database of CPython 3.11); the ASCII digits are its first range.
\<close>

definition digit_ranges :: "(nat \<times> nat) list" where
  "digit_ranges =
    [(48, 57), (178, 179), (185, 185), (1632, 1641), (1776, 1785), (1984, 1993),
     (2406, 2415), (2534, 2543), (2662, 2671), (2790, 2799), (2918, 2927), (3046, 3055),
     (3174, 3183), (3302, 3311), (3430, 3439), (3558, 3567), (3664, 3673), (3792, 3801),
     (3872, 3881), (4160, 4169), (4240, 4249), (4969, 4977), (6112, 6121), (6160, 6169),
     (6470, 6479), (6608, 6618), (6784, 6793), (6800, 6809), (6992, 7001), (7088, 7097),
     (7232, 7241), (7248, 7257), (8304, 8304), (8308, 8313), (8320, 8329), (9312, 9320),
     (9332, 9340), (9352, 9360), (9450, 9450), (9461, 9469), (9471, 9471), (10102, 10110),
     (10112, 10120), (10122, 10130), (42528, 42537), (43216, 43225), (43264, 43273),
     (43472, 43481), (43504, 43513), (43600, 43609), (44016, 44025), (65296, 65305),
     (66720, 66729), (68160, 68163), (68912, 68921), (69216, 69224), (69714, 69722),
     (69734, 69743), (69872, 69881), (69942, 69951), (70096, 70105), (70384, 70393),
     (70736, 70745), (70864, 70873), (71248, 71257), (71360, 71369), (71472, 71481),
     (71904, 71913), (72016, 72025), (72784, 72793), (73040, 73049), (73120, 73129),
     (92768, 92777), (92864, 92873), (93008, 93017), (120782, 120831), (123200, 123209),
     (123632, 123641), (125264, 125273), (127232, 127242), (130032, 130041)]"

definition in_ranges :: "(nat \<times> nat) list \<Rightarrow> nat \<Rightarrow> bool" where
  "in_ranges rs c = list_ex (\<lambda>(lo, hi). lo \<le> c \<and> c \<le> hi) rs"

definition isdigit :: "pystr \<Rightarrow> bool" where
  "isdigit s = (s \<noteq> [] \<and> list_all (in_ranges digit_ranges) s)"

text \<open>The ASCII digits \<open>'0'\<close> to \<open>'9'\<close>, the characters the specification speaks of.\<close>

definition ascii_digit :: "nat \<Rightarrow> bool" where
  "ascii_digit c = (48 \<le> c \<and> c \<le> 57)"

section \<open>The request validator (app.py, validate\_request)\<close>

text \<open>
  The part of Flask's request the decorator reads: \<open>request.is_json\<close>, and the parsed
  body, \<open>None\<close> when the body does not parse (then \<open>request.get_json()\<close> raises
  \<open>BadRequest\<close>).
\<close>

record request =
  is_json :: bool
  json_body :: "json option"

definition get_json :: "request \<Rightarrow> py_exn + json" where
  "get_json req = (case json_body req of None \<Rightarrow> Inl BadRequest | Some d \<Rightarrow> Inr d)"

text \<open>\<open>d.get(k)\<close> on a dict: Python's \<open>None\<close> when the key is absent.\<close>

definition dict_get :: "(pystr \<times> json) list \<Rightarrow> pystr \<Rightarrow> json" where
  "dict_get d k = (case map_of d k of None \<Rightarrow> JNull | Some v \<Rightarrow> v)"

text \<open>Whether a parsed body is a dict, the only value with a \<open>get\<close> method.\<close>

fun is_dict :: "json \<Rightarrow> bool" where
  "is_dict (JObject _) = True"
| "is_dict _ = False"

definition jsonify_error :: "string \<Rightarrow> body" where
  "jsonify_error msg = Jsonify (JObject [(py ''error'', JString (py msg))])"

definition content_type_response :: response where
  "content_type_response = (jsonify_error ''Content-Type must be application/json'', 400)"

definition teapot_response :: response where
  "teapot_response = (Text [], 418)"

definition missing_zip_response :: response where
  "missing_zip_response = (jsonify_error ''zip is required'', 400)"

definition invalid_zip_response :: response where
  "invalid_zip_response = (jsonify_error ''zip must be a 5-digit string'', 400)"

definition missing_measure_response :: response where
  "missing_measure_response = (jsonify_error ''measure_name is required'', 400)"

definition invalid_measure_response :: response where
  "invalid_measure_response =
     (Jsonify (JObject
        [(py ''error'', JString (py ''Invalid measure_name'')),
         (py ''valid_measures'', JArray (map JString sorted_valid_measures))]), 400)"

text \<open>
  \<open>isinstance(zip_code, str) and zip_code.isdigit() and len(zip_code) == 5\<close>: when it
  holds the value is a string, which is returned.
\<close>

definition checked_zip :: "json \<Rightarrow> pystr option" where
  "checked_zip zip_code =
     (case zip_code of
        JString s \<Rightarrow> if isdigit s \<and> length s = 5 then Some s else None
      | _ \<Rightarrow> None)"

text \<open>
  \<open>measure_name not in VALID_MEASURES\<close> hashes the value first: a list or a dict raises
  \<open>TypeError\<close> (unhashable type); any other value is a member only when it is a string
  equal to one of the catalog, and that string is returned.
\<close>

definition checked_measure :: "json \<Rightarrow> py_exn + pystr option" where
  "checked_measure measure_name =
     (case measure_name of
        JArray _ \<Rightarrow> Inl TypeError
      | JObject _ \<Rightarrow> Inl TypeError
      | JString s \<Rightarrow> Inr (if s \<in> VALID_MEASURES then Some s else None)
      | _ \<Rightarrow> Inr None)"

text \<open>
  The decorator. \<open>data.get\<close> exists only on a dict, so any other parsed body raises
  \<open>AttributeError\<close>. The wrapped view reads \<open>request.get_json()\<close> again and takes
  \<open>data['zip']\<close> and \<open>data['measure_name']\<close> from the same parsed body, so \<open>f\<close> is applied
  to the two strings the decorator has just checked.
\<close>

definition validate_request ::
  "(pystr \<Rightarrow> pystr \<Rightarrow> py_exn + response) \<Rightarrow> request \<Rightarrow> py_exn + response" where
  "validate_request f req =
     (if \<not> is_json req then Inr content_type_response
      else case get_json req of
        Inl e \<Rightarrow> Inl e
      | Inr (JObject data) \<Rightarrow>
          if dict_get data (py ''coffee'') = JString (py ''teapot'') then Inr teapot_response
          else (case map_of data (py ''zip'') of
            None \<Rightarrow> Inr missing_zip_response
          | Some zip_code \<Rightarrow>
              (case checked_zip zip_code of
                None \<Rightarrow> Inr invalid_zip_response
              | Some z \<Rightarrow>
                  (case map_of data (py ''measure_name'') of
                    None \<Rightarrow> Inr missing_measure_response
                  | Some measure_name \<Rightarrow>
                      (case checked_measure measure_name of
                        Inl e \<Rightarrow> Inl e
                      | Inr None \<Rightarrow> Inr invalid_measure_response
                      | Inr (Some m) \<Rightarrow> f z m))))
      | Inr _ \<Rightarrow> Inl AttributeError)"

section \<open>The store\<close>

text \<open>
  Both tables are written by csv\_to\_sqlite.py, which declares every column TEXT and
  binds a \<open>str\<close> or \<open>None\<close> to each cell: such a cell is a string or NULL.
\<close>

type_synonym cell = "pystr option"

text \<open>
  A value of any storage class of SQLite, as the \<open>sqlite3\<close> module hands it to Python:
  NULL is \<open>None\<close>, INTEGER an \<open>int\<close>, REAL a \<open>float\<close>, TEXT a \<open>str\<close>, BLOB a \<open>bytes\<close>. The
  service does no arithmetic: a float is given by the text \<open>repr\<close> prints for it, which
  determines it.
\<close>

datatype sqlval = SqlNull | SqlInteger int | SqlReal pystr | SqlText pystr | SqlBlob "8 word list"

text \<open>The Python value fetched from a cell of a TEXT column.\<close>

definition value_of :: "cell \<Rightarrow> sqlval" where
  "value_of c = (case c of None \<Rightarrow> SqlNull | Some s \<Rightarrow> SqlText s)"

record zip_county_row =
  zc_zip :: cell
  zc_county :: cell
  zc_state_abbreviation :: cell
  zc_county_code :: cell

text \<open>
  A row of \<open>county_health_rankings\<close>. The five columns the second query compares or
  orders by (\<open>county\<close>, \<open>state\<close>, \<open>state_code\<close>, \<open>measure_name\<close>, \<open>year_span\<close>) hold what the
  loader stores in them, a string or NULL. The other nine are only fetched and handed to
  \<open>str\<close>; they hold any value SQLite can store, so that what the service does with a
  number or a blob is part of the model whatever wrote the table.
\<close>

record health_row =
  confidence_interval_lower_bound :: sqlval
  confidence_interval_upper_bound :: sqlval
  county :: cell
  county_code :: sqlval
  data_release_year :: sqlval
  denominator :: sqlval
  fipscode :: sqlval
  measure_id :: sqlval
  measure_name :: cell
  numerator :: sqlval
  raw_value :: sqlval
  state :: cell
  state_code :: cell
  year_span :: cell

text \<open>
  What a request finds in \<open>data.db\<close>: whether \<open>sqlite3.connect\<close> succeeds, and for each
  table its rows, or \<open>None\<close> when a query on it raises \<open>sqlite3.Error\<close> (the table is
  missing, the file is not a database).
\<close>

record store =
  connect_ok :: bool
  zip_county :: "zip_county_row list option"
  county_health_rankings :: "health_row list option"

subsection \<open>SQL comparison\<close>

text \<open>
  SQL's three-valued logic: a comparison with NULL is NULL (here \<open>None\<close>), and WHERE keeps
  the rows whose condition is true.
\<close>

fun sql_eq :: "cell \<Rightarrow> cell \<Rightarrow> bool option" where
  "sql_eq (Some a) (Some b) = Some (a = b)"
| "sql_eq _ _ = None"

fun sql_and :: "bool option \<Rightarrow> bool option \<Rightarrow> bool option" where
  "sql_and (Some False) _ = Some False"
| "sql_and _ (Some False) = Some False"
| "sql_and (Some True) (Some True) = Some True"
| "sql_and _ _ = None"

fun sql_or :: "bool option \<Rightarrow> bool option \<Rightarrow> bool option" where
  "sql_or (Some True) _ = Some True"
| "sql_or _ (Some True) = Some True"
| "sql_or (Some False) (Some False) = Some False"
| "sql_or _ _ = None"

text \<open>
  ORDER BY on a TEXT column: NULL sorts before every string, strings by BINARY
  collation.
\<close>

fun cell_le :: "cell \<Rightarrow> cell \<Rightarrow> bool" where
  "cell_le None _ = True"
| "cell_le (Some a) None = False"
| "cell_le (Some a) (Some b) = (a \<le> b)"


section \<open>County data (app.py, get\_county\_data)\<close>

text \<open>
  \<open>SELECT DISTINCT\<close>: each tuple once, at the place of its first occurrence.
\<close>

definition distinct_first :: "'a list \<Rightarrow> 'a list" where
  "distinct_first xs = rev (remdups (rev xs))"

text \<open>
  The first query: the distinct (county, state\_abbreviation, county\_code) of the rows
  whose zip equals the parameter, in the order of the table.
\<close>

definition county_results_of ::
  "zip_county_row list \<Rightarrow> pystr \<Rightarrow> (cell \<times> cell \<times> cell) list" where
  "county_results_of zc zip_code =
     distinct_first (map (\<lambda>r. (zc_county r, zc_state_abbreviation r, zc_county_code r))
       (filter (\<lambda>r. sql_eq (zc_zip r) (Some zip_code) = Some True) zc))"

text \<open>
  The second query's WHERE clause,
  \<open>county = ? AND (state = ? OR state_code = ?) AND measure_name = ?\<close>, with the
  parameters \<open>(county, state_abbr, county_code[:2], measure_name)\<close>.
\<close>

definition where_clause ::
  "cell \<Rightarrow> cell \<Rightarrow> pystr \<Rightarrow> pystr \<Rightarrow> health_row \<Rightarrow> bool option" where
  "where_clause county_p state_p code_p measure_p r =
     sql_and
       (sql_and (sql_eq (county r) county_p)
          (sql_or (sql_eq (state r) state_p) (sql_eq (state_code r) (Some code_p))))
       (sql_eq (measure_name r) (Some measure_p))"

text \<open>
  \<open>ORDER BY year_span DESC\<close>, as an insertion sort. SQLite fixes no order among rows of
  equal \<open>year_span\<close>; here a row goes in front of the rows it is equal to.
\<close>

fun insert_desc :: "health_row \<Rightarrow> health_row list \<Rightarrow> health_row list" where
  "insert_desc r [] = [r]"
| "insert_desc r (x # xs) =
     (if cell_le (year_span x) (year_span r) then r # x # xs else x # insert_desc r xs)"

definition order_by_year_span_desc :: "health_row list \<Rightarrow> health_row list" where
  "order_by_year_span_desc rows = foldr insert_desc rows []"

text \<open>Measure Lookup for one county tuple: the rows the second query fetches.\<close>

definition measure_lookup ::
  "health_row list \<Rightarrow> cell \<Rightarrow> cell \<Rightarrow> pystr \<Rightarrow> pystr \<Rightarrow> health_row list" where
  "measure_lookup tbl county_p state_p code_p measure_p =
     order_by_year_span_desc
       (filter (\<lambda>r. where_clause county_p state_p code_p measure_p r = Some True) tbl)"

text \<open>
  The SELECT list, in its order: the tuple of Python values \<open>fetchall\<close> returns for a
  row. Then the names \<open>cursor.description\<close> gives.
\<close>

definition select_list :: "health_row \<Rightarrow> sqlval list" where
  "select_list r =
     [confidence_interval_lower_bound r, confidence_interval_upper_bound r,
      value_of (county r), county_code r, data_release_year r, denominator r, fipscode r,
      measure_id r, value_of (measure_name r), numerator r, raw_value r, value_of (state r),
      value_of (state_code r), value_of (year_span r)]"

definition description :: "string list" where
  "description =
     [''confidence_interval_lower_bound'', ''confidence_interval_upper_bound'', ''county'',
      ''county_code'', ''data_release_year'', ''denominator'', ''fipscode'', ''measure_id'',
      ''measure_name'', ''numerator'', ''raw_value'', ''state'', ''state_code'', ''year_span'']"

text \<open>\<open>str.lower\<close> on the ASCII names of \<open>description\<close>.\<close>

definition lower :: "pystr \<Rightarrow> pystr" where
  "lower s = map (\<lambda>c. if 65 \<le> c \<and> c \<le> 90 then c + 32 else c) s"

definition columns :: "pystr list" where
  "columns = map (\<lambda>column. lower (py column)) description"

text \<open>\<open>str\<close> of an \<open>int\<close>: its decimal digits, after a minus sign when it is negative.\<close>

fun digits :: "nat \<Rightarrow> pystr" where
  "digits n = (if n < 10 then [48 + n] else digits (n div 10) @ [48 + n mod 10])"

declare digits.simps [simp del]

definition str_int :: "int \<Rightarrow> pystr" where
  "str_int i = (if i < 0 then 45 # digits (nat (- i)) else digits (nat i))"

text \<open>
  \<open>str\<close> of a \<open>bytes\<close> is its \<open>repr\<close>: \<open>b\<close>, a quote (the double quote when the bytes hold
  a single quote and no double quote, else the single quote), the bytes, the quote. The
  quote and the backslash are escaped with a backslash, tab, newline and carriage return
  are \<open>\t\<close>, \<open>\n\<close>, \<open>\r\<close>, any other byte below 32 or above 126 is \<open>\x\<close> and two
  lower-case hexadecimal digits.
\<close>

definition hexdigit :: "nat \<Rightarrow> nat" where
  "hexdigit d = (if d < 10 then 48 + d else 87 + d)"

definition repr_byte :: "nat \<Rightarrow> nat \<Rightarrow> pystr" where
  "repr_byte quote c =
     (if c = quote \<or> c = 92 then [92, c]
      else if c = 9 then [92, 116]
      else if c = 10 then [92, 110]
      else if c = 13 then [92, 114]
      else if c < 32 \<or> 127 \<le> c then [92, 120, hexdigit (c div 16), hexdigit (c mod 16)]
      else [c])"

definition repr_bytes :: "8 word list \<Rightarrow> pystr" where
  "repr_bytes b =
     (let cs = map unat b;
          quote = (if 39 \<in> set cs \<and> 34 \<notin> set cs then 34 else 39)
      in [98, quote] @ concat (map (repr_byte quote) cs) @ [quote])"

text \<open>
  \<open>str(val) if val is not None else ""\<close>, on any value a row can hold; \<open>str\<close> of a string
  is the string.
\<close>

definition str_or_empty :: "sqlval \<Rightarrow> pystr" where
  "str_or_empty val =
     (case val of
        SqlNull \<Rightarrow> []
      | SqlInteger i \<Rightarrow> str_int i
      | SqlReal r \<Rightarrow> r
      | SqlText s \<Rightarrow> s
      | SqlBlob b \<Rightarrow> repr_bytes b)"

text \<open>\<open>dict(zip(columns, [...]))\<close>: the column names are distinct, so every pair stays.\<close>

definition result_of :: "health_row \<Rightarrow> (pystr \<times> pystr) list" where
  "result_of row = zip columns (map str_or_empty (select_list row))"

text \<open>
  The loop over \<open>county_results\<close>. \<open>county_code[:2]\<close> is evaluated before the query runs
  and raises \<open>TypeError\<close> on \<open>None\<close>, which \<open>except sqlite3.Error\<close> does not catch; a
  failing query is caught and makes the function return \<open>None\<close>.
\<close>

fun lookup_all ::
  "health_row list option \<Rightarrow> pystr \<Rightarrow> (cell \<times> cell \<times> cell) list \<Rightarrow>
   (pystr \<times> pystr) list list \<Rightarrow> py_exn + (pystr \<times> pystr) list list option" where
  "lookup_all chr measure_p [] results = Inr (Some results)"
| "lookup_all chr measure_p ((county_p, state_abbr, code) # rest) results =
     (case code of
        None \<Rightarrow> Inl TypeError
      | Some cc \<Rightarrow>
          (case chr of
             None \<Rightarrow> Inr None
           | Some tbl \<Rightarrow>
               lookup_all chr measure_p rest
                 (results @ map result_of
                    (measure_lookup tbl county_p state_abbr (take 2 cc) measure_p))))"

definition get_county_data ::
  "store \<Rightarrow> pystr \<Rightarrow> pystr \<Rightarrow> py_exn + (pystr \<times> pystr) list list option" where
  "get_county_data db zip_code measure_p =
     (if \<not> connect_ok db then Inr None
      else case zip_county db of
        None \<Rightarrow> Inr None
      | Some zc \<Rightarrow>
          (let county_results = county_results_of zc zip_code in
           if county_results = [] then Inr (Some [])
           else lookup_all (county_health_rankings db) measure_p county_results []))"

section \<open>The HTTP surface (app.py)\<close>

definition jsonify_results :: "(pystr \<times> pystr) list list \<Rightarrow> json" where
  "jsonify_results results =
     JArray (map (\<lambda>result. JObject (map (\<lambda>(k, v). (k, JString v)) result)) results)"

definition database_error_response :: response where
  "database_error_response = (jsonify_error ''Database error occurred'', 500)"

definition no_data_response :: response where
  "no_data_response = (jsonify_error ''No data found for the given parameters'', 404)"

text \<open>The body of the view \<open>county_data\<close>, on the validated zip and measure name.\<close>

definition county_data_view :: "store \<Rightarrow> pystr \<Rightarrow> pystr \<Rightarrow> py_exn + response" where
  "county_data_view db zip_code measure_p =
     (case get_county_data db zip_code measure_p of
        Inl e \<Rightarrow> Inl e
      | Inr None \<Rightarrow> Inr database_error_response
      | Inr (Some results) \<Rightarrow>
          if length results = 0 then Inr no_data_response
          else Inr (Jsonify (jsonify_results results), 200))"

text \<open>The registered error handlers.\<close>

definition bad_request :: response where
  "bad_request = (jsonify_error ''Bad request'', 400)"

definition server_error :: response where
  "server_error = (jsonify_error ''Internal server error'', 500)"

text \<open>
  Flask's dispatch of a view's outcome: a \<open>BadRequest\<close> goes to the 400 handler, any
  other exception that leaves the view to the 500 handler.
\<close>

fun dispatch :: "py_exn + response \<Rightarrow> response" where
  "dispatch (Inr r) = r"
| "dispatch (Inl BadRequest) = bad_request"
| "dispatch (Inl _) = server_error"

text \<open>POST /county\_data: the decorated view behind Flask's dispatch.\<close>

definition county_data :: "store \<Rightarrow> request \<Rightarrow> response" where
  "county_data db req = dispatch (validate_request (county_data_view db) req)"


section \<open>The CSV loader (csv\_to\_sqlite.py, main)\<close>

text \<open>
  \<open>str.strip\<close> removes the white space of \<open>str.isspace\<close> from both ends; the table lists
  those code points as inclusive ranges.
\<close>

definition space_ranges :: "(nat \<times> nat) list" where
  "space_ranges =
     [(9, 13), (28, 32), (133, 133), (160, 160), (5760, 5760), (8192, 8202), (8232, 8233),
      (8239, 8239), (8287, 8287), (12288, 12288)]"

definition strip :: "pystr \<Rightarrow> pystr" where
  "strip s = rev (dropWhile (in_ranges space_ranges) (rev (dropWhile (in_ranges space_ranges) s)))"

text \<open>\<open>[val if val.strip() != '' else None for val in row]\<close>\<close>

definition processed_row :: "pystr list \<Rightarrow> cell list" where
  "processed_row row = map (\<lambda>val. if strip val \<noteq> [] then Some val else None) row"

text \<open>
  What SQLite makes of the statements the loader builds from the header row and runs
  before the first INSERT (DROP TABLE IF EXISTS, CREATE TABLE, one CREATE INDEX for each
  commonly queried column): which of them fails first or, when none fails, how many
  columns the created table has. The loader pastes the header cells into the
  CREATE TABLE text, so a cell that is not a plain name (one that holds a comma, say)
  gives another number of columns than there are cells.
\<close>

datatype ddl_outcome = Drop_fails | Create_table_fails | Create_index_fails | Ddl_done nat

text \<open>
  What a run of the loader meets, after \<open>sqlite3.connect\<close>: the rows of the table of that
  name already in the database (\<open>None\<close> when there is none), the header row (\<open>None\<close> when
  \<open>open\<close> or \<open>next(reader)\<close> raises), the outcome of the statements before the first
  INSERT, the data rows the reader yields, whether the reader ends normally after them (it
  raises on a decoding or CSV error), whether the \<open>executemany\<close> call of a given number
  (counted from 0) raises for a reason outside the rows (a full disk, a locked file), and
  whether \<open>conn.commit()\<close> succeeds.
\<close>

record csv_input =
  table_before :: "cell list list option"
  header :: "pystr list option"
  ddl :: ddl_outcome
  data_rows :: "pystr list list"
  read_ok :: bool
  insert_fault :: "nat \<Rightarrow> bool"
  commit_ok :: bool

text \<open>
  The calls the run makes on the connection and its cursor, in order. \<open>Create_index\<close>
  stands for the CREATE INDEX statements, however many there are.
\<close>

datatype db_call =
  Drop_table | Create_table | Create_index | Executemany "cell list list"
  | Commit | Rollback | Close

definition batch_size :: nat where
  "batch_size = 1000"

text \<open>The number of \<open>executemany\<close> calls among the calls, and the rows they were given.\<close>

fun is_executemany :: "db_call \<Rightarrow> bool" where
  "is_executemany (Executemany _) = True"
| "is_executemany _ = False"

definition flushes :: "db_call list \<Rightarrow> nat" where
  "flushes calls = length (filter is_executemany calls)"

fun rows_of :: "db_call \<Rightarrow> cell list list" where
  "rows_of (Executemany batch) = batch"
| "rows_of _ = []"

definition inserted :: "db_call list \<Rightarrow> cell list list" where
  "inserted calls = concat (map rows_of calls)"

text \<open>
  \<open>cursor.executemany(insert_sql, batch)\<close>, for a header of \<open>n\<close> cells and a table of \<open>k\<close>
  columns, as the call number \<open>i\<close>. The statement has \<open>n\<close> placeholders: it is refused
  when the table has another number of columns, and a row with another number of cells
  cannot be bound to it.
\<close>

definition executemany_ok ::
  "nat \<Rightarrow> nat \<Rightarrow> (nat \<Rightarrow> bool) \<Rightarrow> nat \<Rightarrow> cell list list \<Rightarrow> bool" where
  "executemany_ok n k fault i batch =
     (k = n \<and> \<not> fault i \<and> list_all (\<lambda>row. length row = n) batch)"

text \<open>
  \<open>for row in reader\<close>, with the batch and the calls made so far. \<open>Inl\<close> is an exception
  raised by a flush, with the calls up to it; \<open>Inr\<close> is the batch left over at the end of
  the rows.
\<close>

fun insert_rows ::
  "(nat \<Rightarrow> cell list list \<Rightarrow> bool) \<Rightarrow> pystr list list \<Rightarrow> cell list list \<Rightarrow> db_call list \<Rightarrow>
   db_call list + (cell list list \<times> db_call list)" where
  "insert_rows ok [] batch calls = Inr (batch, calls)"
| "insert_rows ok (row # rows) batch calls =
     (let batch' = batch @ [processed_row row] in
      if length batch' \<ge> batch_size then
        (if ok (flushes calls) batch'
         then insert_rows ok rows [] (calls @ [Executemany batch'])
         else Inl (calls @ [Executemany batch']))
      else insert_rows ok rows batch' calls)"

text \<open>
  What a run leaves: the calls it made, the rows of the table in the database afterwards
  (\<open>None\<close> when there is no such table), and the exit status.
\<close>

record outcome =
  db_calls :: "db_call list"
  table_after :: "cell list list option"
  exit_status :: nat

text \<open>
  \<open>except Exception\<close>: \<open>conn.rollback()\<close>, then \<open>sys.exit(1)\<close>, with \<open>conn.close()\<close> in the
  \<open>finally\<close> clause on the way out. The \<open>sqlite3\<close> module opens a transaction before the
  first INSERT only, so the rollback undoes the rows inserted and nothing else: the
  statements before the first INSERT have taken effect when they ran. The second
  argument is the table as they left it.
\<close>

definition failed :: "db_call list \<Rightarrow> cell list list option \<Rightarrow> outcome" where
  "failed calls tbl =
     \<lparr>db_calls = calls @ [Rollback, Close], table_after = tbl, exit_status = 1\<rparr>"

text \<open>
  The run. DROP TABLE removes the table, CREATE TABLE makes it anew and empty, and the
  commit stores the rows of the \<open>executemany\<close> calls.
\<close>

definition main :: "csv_input \<Rightarrow> outcome" where
  "main inp =
     (case header inp of
        None \<Rightarrow> failed [] (table_before inp)
      | Some headers \<Rightarrow>
          (case ddl inp of
             Drop_fails \<Rightarrow> failed [Drop_table] (table_before inp)
           | Create_table_fails \<Rightarrow> failed [Drop_table, Create_table] None
           | Create_index_fails \<Rightarrow> failed [Drop_table, Create_table, Create_index] (Some [])
           | Ddl_done k \<Rightarrow>
               (let ok = executemany_ok (length headers) k (insert_fault inp) in
                case insert_rows ok (data_rows inp) [] [Drop_table, Create_table, Create_index] of
                  Inl calls \<Rightarrow> failed calls (Some [])
                | Inr (batch, calls) \<Rightarrow>
                    if \<not> read_ok inp then failed calls (Some [])
                    else if batch \<noteq> [] \<and> \<not> ok (flushes calls) batch
                      then failed (calls @ [Executemany batch]) (Some [])
                    else (let calls' = (if batch \<noteq> [] then calls @ [Executemany batch] else calls) in
                      if \<not> commit_ok inp then failed (calls' @ [Commit]) (Some [])
                      else \<lparr>db_calls = calls' @ [Commit, Close],
                            table_after = Some (inserted calls'), exit_status = 0\<rparr>))))"


section \<open>Example data\<close>

text \<open>A store whose two tables exist and are empty.\<close>

definition example_store :: store where
  "example_store = \<lparr>connect_ok = True, zip_county = Some [], county_health_rankings = Some []\<rparr>"

text \<open>A request for ZIP 02139 and the measure Adult obesity.\<close>

definition example_request :: request where
  "example_request =
     \<lparr>is_json = True,
      json_body = Some (JObject [(py ''zip'', JString (py ''02139'')),
                                 (py ''measure_name'', JString (py ''Adult obesity''))])\<rparr>"

text \<open>The same request with the ZIP written in the Arabic-Indic digits U+0660 to U+0664.\<close>

definition arabic_zip_request :: request where
  "arabic_zip_request =
     \<lparr>is_json = True,
      json_body = Some (JObject [(py ''zip'', JString [1632, 1633, 1634, 1635, 1636]),
                                 (py ''measure_name'', JString (py ''Adult obesity''))])\<rparr>"

text \<open>A store that cannot be opened, and one whose mapping table knows only ZIP 10001.\<close>

definition fault_store :: store where
  "fault_store = \<lparr>connect_ok = False, zip_county = None, county_health_rankings = None\<rparr>"

definition other_zip_store :: store where
  "other_zip_store =
     \<lparr>connect_ok = True,
      zip_county = Some [\<lparr>zc_zip = Some (py ''10001''), zc_county = Some (py ''New York''),
                          zc_state_abbreviation = Some (py ''NY''),
                          zc_county_code = Some (py ''36061'')\<rparr>],
      county_health_rankings = None\<rparr>"

text \<open>A request whose measure name is a JSON array.\<close>

definition list_measure_request :: request where
  "list_measure_request =
     \<lparr>is_json = True,
      json_body = Some (JObject [(py ''zip'', JString (py ''02139'')),
                                 (py ''measure_name'', JArray [])])\<rparr>"

text \<open>
  A rankings row for Middlesex county whose \<open>state\<close> is MA and whose \<open>state_code\<close> is 25.
  Its confidence bounds are text, its county code is the blob of the bytes \<open>017\<close>, its
  release year and measure id are integers, its denominator is the integer -1, its
  numerator is NULL and its raw value is the float 0.23.
\<close>

definition middlesex_row :: health_row where
  "middlesex_row =
     \<lparr>confidence_interval_lower_bound = SqlText (py ''0.21''),
      confidence_interval_upper_bound = SqlText (py ''0.25''),
      county = Some (py ''Middlesex''), county_code = SqlBlob [48, 49, 55],
      data_release_year = SqlInteger 2018, denominator = SqlInteger (- 1),
      fipscode = SqlText (py ''25017''), measure_id = SqlInteger 11,
      measure_name = Some (py ''Adult obesity''), numerator = SqlNull,
      raw_value = SqlReal (py ''0.23''), state = Some (py ''MA''), state_code = Some (py ''25''),
      year_span = Some (py ''2014-2018'')\<rparr>"

text \<open>The same row with a NULL county.\<close>

definition null_county_row :: health_row where
  "null_county_row = middlesex_row\<lparr>county := None\<rparr>"

text \<open>A mapping row for ZIP 02139 whose county cell is NULL (an empty cell of the CSV).\<close>

definition null_county_mapping :: zip_county_row where
  "null_county_mapping =
     \<lparr>zc_zip = Some (py ''02139''), zc_county = None,
      zc_state_abbreviation = Some (py ''MA''), zc_county_code = Some (py ''25017'')\<rparr>"

text \<open>
  Three rankings rows for the same county and measure whose year spans are
  \<open>2014-2018\<close>, NULL and \<open>999-1000\<close>.
\<close>

definition year_span_rows :: "health_row list" where
  "year_span_rows =
     [middlesex_row, middlesex_row\<lparr>year_span := None\<rparr>,
      middlesex_row\<lparr>year_span := Some (py ''999-1000'')\<rparr>]"

text \<open>A store in which ZIP 02139 resolves to Middlesex county, with one rankings row.\<close>

definition middlesex_store :: store where
  "middlesex_store =
     \<lparr>connect_ok = True,
      zip_county = Some [\<lparr>zc_zip = Some (py ''02139''), zc_county = Some (py ''Middlesex''),
                          zc_state_abbreviation = Some (py ''MA''),
                          zc_county_code = Some (py ''25017'')\<rparr>],
      county_health_rankings = Some [middlesex_row]\<rparr>"



text \<open>
  A CSV file whose header has the two cells \<open>a,b\<close> and \<open>c\<close>, so that the created table has
  the three columns \<open>a\<close>, \<open>b\<close> and \<open>c\<close>, with one data row of two cells.
\<close>

definition comma_header_input :: csv_input where
  "comma_header_input =
     \<lparr>table_before = None,
      header = Some [py ''a,b'', py ''c''], ddl = Ddl_done 3,
      data_rows = [[py ''1'', py ''2'']],
      read_ok = True, insert_fault = (\<lambda>i. False), commit_ok = True\<rparr>"

section \<open>The catalog and GET /measures\<close>

lemma sorted_valid_measures_eq:
  "sorted_valid_measures =
     map py [''Adult obesity'', ''Children in poverty'', ''Daily fine particulate matter'',
       ''Diabetic screening'', ''Mammography screening'', ''Physical inactivity'',
       ''Premature Death'', ''Preventable hospital stays'', ''Sexually transmitted infections'',
       ''Unemployment'', ''Uninsured'', ''Violent crime rate'']"
  by (simp add: sorted_valid_measures_def VALID_MEASURES_def py_def
      sorted_list_of_set_sort_remdups)

lemma finite_VALID_MEASURES: "finite VALID_MEASURES"
  by (simp add: VALID_MEASURES_def)

lemma sorted_of_any_listing:
  assumes "distinct xs" and "set xs = VALID_MEASURES"
  shows "sort xs = sorted_valid_measures"
proof -
  have "sorted_list_of_set (set xs) = sort (remdups xs)"
    by (rule sorted_list_of_set_sort_remdups)
  with assms show ?thesis
    by (simp add: sorted_valid_measures_def distinct_remdups_id)
qed

text \<open>
  Claim C9. GET /measures answers 200 with the object \<open>{"measures": [...]}\<close> whose list is
  the catalog in ascending order, twelve entries. The response is one fixed value: it
  depends on no argument and no state, so every call gives it.
\<close>

theorem get_measures_catalog:
  "get_measures =
     (Jsonify (JObject [(py ''measures'', JArray (map (\<lambda>s. JString (py s))
        [''Adult obesity'', ''Children in poverty'', ''Daily fine particulate matter'',
         ''Diabetic screening'', ''Mammography screening'', ''Physical inactivity'',
         ''Premature Death'', ''Preventable hospital stays'',
         ''Sexually transmitted infections'', ''Unemployment'', ''Uninsured'',
         ''Violent crime rate'']))]), 200)
   \<and> length sorted_valid_measures = 12
   \<and> sorted sorted_valid_measures
   \<and> distinct sorted_valid_measures
   \<and> set sorted_valid_measures = VALID_MEASURES"
proof -
  have a: "get_measures =
     (Jsonify (JObject [(py ''measures'', JArray (map (\<lambda>s. JString (py s))
        [''Adult obesity'', ''Children in poverty'', ''Daily fine particulate matter'',
         ''Diabetic screening'', ''Mammography screening'', ''Physical inactivity'',
         ''Premature Death'', ''Preventable hospital stays'',
         ''Sexually transmitted infections'', ''Unemployment'', ''Uninsured'',
         ''Violent crime rate'']))]), 200)"
    unfolding get_measures_def sorted_valid_measures_eq by simp
  have b: "length sorted_valid_measures = 12"
    unfolding sorted_valid_measures_eq by simp
  have c: "sorted sorted_valid_measures" "distinct sorted_valid_measures"
    "set sorted_valid_measures = VALID_MEASURES"
    using finite_VALID_MEASURES by (simp_all add: sorted_valid_measures_def)
  from a b c show ?thesis by blast
qed

section \<open>The request validator\<close>

lemma py_eq_iff: "py a = py b \<longleftrightarrow> a = b"
  by (simp add: py_def inj_map_eq_map[OF inj_of_char])

lemma status_simps:
  "snd content_type_response = 400" "snd teapot_response = 418"
  "snd missing_zip_response = 400" "snd invalid_zip_response = 400"
  "snd missing_measure_response = 400" "snd invalid_measure_response = 400"
  "snd database_error_response = 500" "snd no_data_response = 404"
  "snd bad_request = 400" "snd server_error = 500"
  by (simp_all add: content_type_response_def teapot_response_def missing_zip_response_def
      invalid_zip_response_def missing_measure_response_def invalid_measure_response_def
      database_error_response_def no_data_response_def bad_request_def server_error_def)

lemma teapot_dispatch:
  assumes "is_json req" and "json_body req = Some (JObject data)"
    and "map_of data (py ''coffee'') = Some (JString (py ''teapot''))"
  shows "validate_request f req = Inr teapot_response"
  using assms by (simp add: validate_request_def get_json_def dict_get_def)

text \<open>
  Claim C3. A JSON body that is an object whose field \<open>coffee\<close> is the string
  \<open>"teapot"\<close> is answered with status 418 and an empty body, whatever its other fields
  are (present or not, valid or not) and whatever the store holds.
\<close>

theorem teapot_first:
  assumes "is_json req" and "json_body req = Some (JObject data)"
    and "map_of data (py ''coffee'') = Some (JString (py ''teapot''))"
  shows "county_data db req = (Text [], 418)"
  using teapot_dispatch[OF assms] by (simp add: county_data_def teapot_response_def)

theorem teapot_first_witness:
  "county_data example_store
     \<lparr>is_json = True,
      json_body = Some (JObject [(py ''zip'', JInt 7), (py ''coffee'', JString (py ''teapot''))])\<rparr>
   = (Text [], 418)"
  by (rule teapot_first[where data = "[(py ''zip'', JInt 7), (py ''coffee'', JString (py ''teapot''))]"])
     (simp_all add: py_def)

lemma non_dict_raises:
  assumes "is_json req" and "json_body req = Some d" and "\<not> is_dict d"
  shows "validate_request f req = Inl AttributeError"
  using assms by (cases d) (simp_all add: validate_request_def get_json_def)

lemma server_error_distinct:
  "server_error \<noteq> content_type_response" "server_error \<noteq> missing_zip_response"
  "server_error \<noteq> invalid_zip_response" "server_error \<noteq> missing_measure_response"
  "server_error \<noteq> invalid_measure_response" "server_error \<noteq> bad_request"
  by (simp_all add: content_type_response_def missing_zip_response_def
      invalid_zip_response_def missing_measure_response_def invalid_measure_response_def
      bad_request_def server_error_def)

text \<open>
  Claim C10. A body that parses as JSON but is not an object (an array, a string, a
  number, a boolean, null) makes the decorator's \<open>data.get\<close> raise \<open>AttributeError\<close>; the
  service answers with the 500 handler's \<open>{"error": "Internal server error"}\<close>, which is
  none of the 400 outcomes.
\<close>

theorem non_object_body_500:
  assumes "is_json req" and "json_body req = Some d" and "\<not> is_dict d"
  shows "validate_request f req = Inl AttributeError
    \<and> county_data db req = (jsonify_error ''Internal server error'', 500)
    \<and> county_data db req \<notin> {content_type_response, missing_zip_response,
          invalid_zip_response, missing_measure_response, invalid_measure_response, bad_request}"
proof -
  have a: "validate_request f req = Inl AttributeError" for f
    using assms by (rule non_dict_raises)
  then have b: "county_data db req = server_error"
    by (simp add: county_data_def)
  from a b show ?thesis
    using server_error_distinct by (simp add: server_error_def)
qed

theorem non_object_body_500_witness:
  "validate_request (county_data_view example_store)
      \<lparr>is_json = True, json_body = Some (JArray [JString (py ''02139'')])\<rparr> = Inl AttributeError
   \<and> county_data example_store \<lparr>is_json = True, json_body = Some (JArray [JString (py ''02139'')])\<rparr>
       = (jsonify_error ''Internal server error'', 500)"
  using non_object_body_500[of "\<lparr>is_json = True, json_body = Some (JArray [JString (py ''02139'')])\<rparr>"
      "JArray [JString (py ''02139'')]" "county_data_view example_store" example_store]
  by simp

section \<open>Outcomes of the view\<close>

lemma lookup_all_exn: "lookup_all chr m cr res = Inl e \<Longrightarrow> e = TypeError"
  by (induction chr m cr res rule: lookup_all.induct) (auto split: option.splits)

lemma get_county_data_exn: "get_county_data db z m = Inl e \<Longrightarrow> e = TypeError"
  by (auto simp: get_county_data_def Let_def split: if_splits option.splits
      dest: lookup_all_exn)

lemma view_outcomes:
  "dispatch (county_data_view db z m) = server_error
   \<or> dispatch (county_data_view db z m) = database_error_response
   \<or> dispatch (county_data_view db z m) = no_data_response
   \<or> (\<exists>results. results \<noteq> [] \<and> get_county_data db z m = Inr (Some results)
        \<and> dispatch (county_data_view db z m) = (Jsonify (jsonify_results results), 200))"
proof (cases "get_county_data db z m")
  case (Inl e)
  then have "e = TypeError" by (rule get_county_data_exn)
  with Inl show ?thesis by (simp add: county_data_view_def)
next
  case (Inr r)
  then show ?thesis by (cases r) (auto simp: county_data_view_def)
qed

lemma view_status:
  "snd (dispatch (county_data_view db z m)) \<in> {500, 404, 200}"
  using view_outcomes[of db z m] status_simps by auto

section \<open>The zip check\<close>

lemma ascii_digit_in_table: "ascii_digit c \<Longrightarrow> in_ranges digit_ranges c"
  by (simp add: ascii_digit_def in_ranges_def digit_ranges_def)

lemma checked_zip_None_iff:
  "checked_zip v = None \<longleftrightarrow>
     \<not> (\<exists>s. v = JString s \<and> length s = 5 \<and> list_all (in_ranges digit_ranges) s)"
  by (cases v) (auto simp: checked_zip_def isdigit_def)

lemma checked_zip_Some: "checked_zip v = Some z \<Longrightarrow> v = JString z"
  by (cases v) (auto simp: checked_zip_def split: if_splits)

lemma checked_measure_exn: "checked_measure v = Inl e \<Longrightarrow> e = TypeError"
  by (cases v) (auto simp: checked_measure_def)

lemma invalid_zip_distinct:
  "missing_measure_response \<noteq> invalid_zip_response"
  "invalid_measure_response \<noteq> invalid_zip_response"
  "server_error \<noteq> invalid_zip_response"
  by (simp_all add: missing_measure_response_def invalid_measure_response_def
      invalid_zip_response_def server_error_def jsonify_error_def py_def)

lemma view_not_invalid_zip: "dispatch (county_data_view db z m) \<noteq> invalid_zip_response"
  using view_status[of db z m] status_simps(4) by auto

lemma zip_branch:
  assumes "is_json req" and "json_body req = Some (JObject data)"
    and "dict_get data (py ''coffee'') \<noteq> JString (py ''teapot'')"
    and "map_of data (py ''zip'') = Some v"
  shows "county_data db req = invalid_zip_response \<longleftrightarrow> checked_zip v = None"
proof (cases "checked_zip v")
  case None
  with assms show ?thesis
    by (simp add: county_data_def validate_request_def get_json_def)
next
  case (Some z)
  show ?thesis
  proof (cases "map_of data (py ''measure_name'')")
    case None
    with Some assms show ?thesis
      using invalid_zip_distinct
      by (simp add: county_data_def validate_request_def get_json_def)
  next
    case mv: (Some mv)
    show ?thesis
    proof (cases "checked_measure mv")
      case (Inl e)
      then have "e = TypeError" by (rule checked_measure_exn)
      with Inl mv Some assms show ?thesis
        using invalid_zip_distinct
        by (simp add: county_data_def validate_request_def get_json_def)
    next
      case (Inr r)
      with mv Some assms show ?thesis
        using invalid_zip_distinct view_not_invalid_zip
        by (cases r) (simp_all add: county_data_def validate_request_def get_json_def)
    qed
  qed
qed

text \<open>
  What the zip check does: for a JSON object body without the teapot field and with a
  field \<open>zip\<close>, the service answers InvalidZip (status 400, "zip must be a 5-digit
  string") exactly when the value is not a string of exactly 5 characters that are all
  digits in the sense of \<open>str.isdigit\<close> (Unicode Numeric\_Type Digit or Decimal). Every
  string of exactly 5 ASCII digits passes.
\<close>

lemma zip_accepts_isdigit_strings:
  assumes "is_json req" and "json_body req = Some (JObject data)"
    and "dict_get data (py ''coffee'') \<noteq> JString (py ''teapot'')"
    and "map_of data (py ''zip'') = Some v"
  shows "(county_data db req = invalid_zip_response \<longleftrightarrow>
            \<not> (\<exists>s. v = JString s \<and> length s = 5 \<and> list_all (in_ranges digit_ranges) s))
       \<and> ((\<exists>s. v = JString s \<and> length s = 5 \<and> list_all ascii_digit s) \<longrightarrow>
            county_data db req \<noteq> invalid_zip_response)
       \<and> snd invalid_zip_response = 400"
proof -
  have a: "county_data db req = invalid_zip_response \<longleftrightarrow>
      \<not> (\<exists>s. v = JString s \<and> length s = 5 \<and> list_all (in_ranges digit_ranges) s)"
    using zip_branch[OF assms] checked_zip_None_iff by simp
  have b: "list_all ascii_digit s \<Longrightarrow> list_all (in_ranges digit_ranges) s" for s
    by (induction s) (simp_all add: ascii_digit_in_table)
  from a b show ?thesis
    using status_simps(4) by blast
qed

lemma adult_obesity_valid: "py ''Adult obesity'' \<in> VALID_MEASURES"
  by (simp add: VALID_MEASURES_def)

lemma example_zip_checked: "checked_zip (JString (py ''02139'')) = Some (py ''02139'')"
  by (simp add: checked_zip_def isdigit_def in_ranges_def digit_ranges_def py_def)

lemma arabic_zip_checked:
  "checked_zip (JString [1632, 1633, 1634, 1635, 1636]) = Some [1632, 1633, 1634, 1635, 1636]"
  by (simp add: checked_zip_def isdigit_def in_ranges_def digit_ranges_def)

lemma example_request_fields:
  "is_json example_request"
  "json_body example_request = Some (JObject [(py ''zip'', JString (py ''02139'')),
       (py ''measure_name'', JString (py ''Adult obesity''))])"
  by (simp_all add: example_request_def)

lemma example_fields_lookup:
  "dict_get [(py ''zip'', JString (py ''02139'')),
       (py ''measure_name'', JString (py ''Adult obesity''))] (py ''coffee'') = JNull"
  "map_of [(py ''zip'', JString (py ''02139'')),
       (py ''measure_name'', JString (py ''Adult obesity''))] (py ''zip'') = Some (JString (py ''02139''))"
  "map_of [(py ''zip'', JString (py ''02139'')),
       (py ''measure_name'', JString (py ''Adult obesity''))] (py ''measure_name'')
     = Some (JString (py ''Adult obesity''))"
  by (simp_all add: dict_get_def py_def)

lemma zip_accepts_isdigit_strings_example:
  "(\<exists>s. JString (py ''02139'') = JString s \<and> length s = 5 \<and> list_all ascii_digit s)
   \<and> county_data example_store example_request \<noteq> invalid_zip_response"
proof -
  have ex: "\<exists>s. JString (py ''02139'') = JString s \<and> length s = 5 \<and> list_all ascii_digit s"
    by (simp add: ascii_digit_def py_def)
  have nt: "dict_get [(py ''zip'', JString (py ''02139'')),
       (py ''measure_name'', JString (py ''Adult obesity''))] (py ''coffee'')
     \<noteq> JString (py ''teapot'')"
    by (simp add: example_fields_lookup(1))
  from ex show ?thesis
    using zip_accepts_isdigit_strings[OF example_request_fields nt example_fields_lookup(2),
        of example_store]
    by blast
qed

lemma superscript_zip_checked:
  "checked_zip (JString [178, 178, 178, 178, 178]) = Some [178, 178, 178, 178, 178]"
  by (simp add: checked_zip_def isdigit_def in_ranges_def digit_ranges_def)

text \<open>
  Claim C2, at the failing input \<open>{"zip": "<U+0660 U+0661 U+0662 U+0663 U+0664>",
  "measure_name": "Adult obesity"}\<close>: the ZIP of five Arabic-Indic digits holds no ASCII
  digit, yet it passes the check that answers "zip must be a 5-digit string", and the
  request goes on to the store (here: no data, 404) instead of being answered with
  InvalidZip, 400. Five superscript twos (U+00B2) pass the check as well.
\<close>

theorem arabic_digits_accepted:
  "county_data example_store arabic_zip_request = no_data_response
   \<and> snd no_data_response = 404
   \<and> no_data_response \<noteq> invalid_zip_response
   \<and> \<not> list_all ascii_digit [1632, 1633, 1634, 1635, 1636]
   \<and> checked_zip (JString [178, 178, 178, 178, 178]) \<noteq> None
   \<and> \<not> list_all ascii_digit [178, 178, 178, 178, 178]"
proof -
  have "validate_request (county_data_view example_store) arabic_zip_request
      = county_data_view example_store [1632, 1633, 1634, 1635, 1636] (py ''Adult obesity'')"
    using adult_obesity_valid
    by (simp add: validate_request_def arabic_zip_request_def get_json_def dict_get_def
        arabic_zip_checked checked_measure_def py_eq_iff)
  moreover have "county_data_view example_store [1632, 1633, 1634, 1635, 1636] (py ''Adult obesity'')
      = Inr no_data_response"
    by (simp add: county_data_view_def get_county_data_def example_store_def
        county_results_of_def distinct_first_def)
  moreover have "no_data_response \<noteq> invalid_zip_response"
    by (simp add: no_data_response_def invalid_zip_response_def)
  ultimately show ?thesis
    using superscript_zip_checked status_simps(8)
    by (simp add: county_data_def ascii_digit_def)
qed

section \<open>The measure name check\<close>

text \<open>
  Claim C6, at the failing input \<open>{"zip": "02139", "measure_name": []}\<close>: the membership
  test on the list raises \<open>TypeError\<close>, and the answer is the 500 handler's response, not
  the 400 InvalidMeasure response with the catalog.
\<close>

theorem unhashable_measure_name_500:
  "validate_request (county_data_view db) list_measure_request = Inl TypeError
   \<and> county_data db list_measure_request = (jsonify_error ''Internal server error'', 500)
   \<and> county_data db list_measure_request \<noteq> invalid_measure_response"
proof -
  have a: "validate_request (county_data_view db) list_measure_request = Inl TypeError"
    by (simp add: validate_request_def list_measure_request_def get_json_def dict_get_def
        example_zip_checked checked_measure_def py_eq_iff)
  then have "county_data db list_measure_request = server_error"
    by (simp add: county_data_def)
  with a show ?thesis
    using server_error_distinct(5) by (simp add: server_error_def)
qed

text \<open>
  For every measure name that can be hashed (anything but a list or a dict) and is not a
  string of the catalog, the answer is the 400 response with the sorted catalog.
\<close>

lemma invalid_measure_hashable:
  assumes "is_json req" and "json_body req = Some (JObject data)"
    and "dict_get data (py ''coffee'') \<noteq> JString (py ''teapot'')"
    and "map_of data (py ''zip'') = Some v" and "checked_zip v = Some z"
    and "map_of data (py ''measure_name'') = Some mv"
    and "\<not> is_dict mv" and "\<forall>xs. mv \<noteq> JArray xs" and "\<forall>s \<in> VALID_MEASURES. mv \<noteq> JString s"
  shows "county_data db req =
     (Jsonify (JObject [(py ''error'', JString (py ''Invalid measure_name'')),
        (py ''valid_measures'', JArray (map JString sorted_valid_measures))]), 400)"
proof -
  from assms(7-9) have "checked_measure mv = Inr None"
    by (cases mv) (auto simp: checked_measure_def)
  with assms(1-6) show ?thesis
    by (simp add: county_data_def validate_request_def get_json_def
        invalid_measure_response_def)
qed

section \<open>The County Resolver\<close>

lemma sql_eq_True_iff: "sql_eq a b = Some True \<longleftrightarrow> (\<exists>s. a = Some s \<and> b = Some s)"
  by (cases a; cases b) auto

lemma distinct_first_order: "distinct_first [1, 2, 1, 3, 2 :: nat] = [1, 2, 3]"
  by (simp add: distinct_first_def)

lemma county_results_unknown_zip:
  assumes "\<forall>r \<in> set zc. zc_zip r \<noteq> Some z"
  shows "county_results_of zc z = []"
proof -
  have "filter (\<lambda>r. sql_eq (zc_zip r) (Some z) = Some True) zc = []"
    using assms by (auto simp: filter_empty_conv sql_eq_True_iff)
  then show ?thesis by (simp add: county_results_of_def distinct_first_def)
qed

lemma valid_request_runs_view:
  assumes "is_json req" and "json_body req = Some (JObject data)"
    and "dict_get data (py ''coffee'') \<noteq> JString (py ''teapot'')"
    and "map_of data (py ''zip'') = Some (JString z)"
    and "isdigit z" and "length z = 5"
    and "map_of data (py ''measure_name'') = Some (JString m)"
    and "m \<in> VALID_MEASURES"
  shows "validate_request f req = f z m"
  using assms
  by (simp add: validate_request_def get_json_def checked_zip_def checked_measure_def)

text \<open>
  Claim C4. Take a request that passes validation with the ZIP \<open>z\<close>. When the store opens
  and the mapping table can be read and has no row for \<open>z\<close>, the answer is 404 (whether or
  not the rankings table could be read). When the store cannot be opened or the mapping
  table cannot be read, the answer is the 500 response, which is a different response.
\<close>

theorem unknown_zip_404:
  assumes "is_json req" and "json_body req = Some (JObject data)"
    and "dict_get data (py ''coffee'') \<noteq> JString (py ''teapot'')"
    and "map_of data (py ''zip'') = Some (JString z)"
    and "isdigit z" and "length z = 5"
    and "map_of data (py ''measure_name'') = Some (JString m)"
    and "m \<in> VALID_MEASURES"
  shows "(connect_ok db \<and> zip_county db = Some zc \<and> (\<forall>r \<in> set zc. zc_zip r \<noteq> Some z) \<longrightarrow>
            get_county_data db z m = Inr (Some [])
            \<and> county_data db req = (jsonify_error ''No data found for the given parameters'', 404))
       \<and> (\<not> connect_ok db \<or> zip_county db = None \<longrightarrow>
            get_county_data db z m = Inr None
            \<and> county_data db req = (jsonify_error ''Database error occurred'', 500))"
proof -
  have run: "county_data db req = dispatch (county_data_view db z m)"
    using valid_request_runs_view[OF assms] by (simp add: county_data_def)
  have a: "get_county_data db z m = Inr (Some [])"
    if "connect_ok db" "zip_county db = Some zc" "\<forall>r \<in> set zc. zc_zip r \<noteq> Some z"
    using that county_results_unknown_zip[of zc z] by (simp add: get_county_data_def)
  have b: "get_county_data db z m = Inr None" if "\<not> connect_ok db \<or> zip_county db = None"
    using that by (auto simp: get_county_data_def)
  show ?thesis
    using a b run
    by (auto simp: county_data_view_def no_data_response_def database_error_response_def)
qed

theorem unknown_zip_404_witness:
  "county_data other_zip_store example_request
     = (jsonify_error ''No data found for the given parameters'', 404)
   \<and> county_data fault_store example_request
     = (jsonify_error ''Database error occurred'', 500)"
proof -
  have nt: "dict_get [(py ''zip'', JString (py ''02139'')),
       (py ''measure_name'', JString (py ''Adult obesity''))] (py ''coffee'')
     \<noteq> JString (py ''teapot'')"
    by (simp add: example_fields_lookup(1))
  have z: "isdigit (py ''02139'')" "length (py ''02139'') = 5"
    by (simp_all add: isdigit_def in_ranges_def digit_ranges_def py_def)
  note inst = unknown_zip_404[OF example_request_fields nt example_fields_lookup(2) z
      example_fields_lookup(3) adult_obesity_valid]
  have "county_data other_zip_store example_request
     = (jsonify_error ''No data found for the given parameters'', 404)"
    using inst[of other_zip_store "the (zip_county other_zip_store)"]
    by (simp add: other_zip_store_def py_eq_iff)
  moreover have "county_data fault_store example_request
     = (jsonify_error ''Database error occurred'', 500)"
    using inst[of fault_store "[]"] by (simp add: fault_store_def)
  ultimately show ?thesis by simp
qed

section \<open>Measure Lookup\<close>

lemma sql_and_True_iff: "sql_and a b = Some True \<longleftrightarrow> a = Some True \<and> b = Some True"
  by (cases "(a, b)" rule: sql_and.cases) auto

lemma sql_or_True_iff: "sql_or a b = Some True \<longleftrightarrow> a = Some True \<or> b = Some True"
  by (cases "(a, b)" rule: sql_or.cases) auto

lemma where_clause_True_iff:
  "where_clause c s code m r = Some True \<longleftrightarrow>
     (\<exists>x. c = Some x \<and> county r = Some x) \<and> measure_name r = Some m
     \<and> ((\<exists>x. s = Some x \<and> state r = Some x) \<or> state_code r = Some code)"
  by (auto simp: where_clause_def sql_and_True_iff sql_or_True_iff sql_eq_True_iff)

lemma set_insert_desc: "set (insert_desc r xs) = insert r (set xs)"
  by (induction xs) auto

lemma set_order_by_year_span_desc: "set (order_by_year_span_desc rows) = set rows"
  by (induction rows) (simp_all add: order_by_year_span_desc_def set_insert_desc)

lemma length_insert_desc: "length (insert_desc r xs) = Suc (length xs)"
  by (induction xs) auto

lemma length_order_by_year_span_desc: "length (order_by_year_span_desc rows) = length rows"
  by (induction rows) (simp_all add: order_by_year_span_desc_def length_insert_desc)

lemma lookup_all_single:
  "lookup_all (Some tbl) m [(c, s, Some cc)] [] =
     Inr (Some (map result_of (measure_lookup tbl c s (take 2 cc) m)))"
  by simp

text \<open>
  Claim C1, as amended. For a resolved tuple whose county\_code is present, the loop runs
  Measure Lookup with the first two characters of the code, and a row of the rankings
  table is among the rows returned exactly when its county is present and equal to the
  tuple's county (which then is present too), its measure\_name is the requested one, and
  either its state is present and equal to the tuple's state abbreviation or its
  state\_code is that two-character prefix. A NULL on either side of a comparison never
  matches.
\<close>

theorem measure_lookup_iff:
  "lookup_all (Some tbl) m [(c, s, Some cc)] [] =
     Inr (Some (map result_of (measure_lookup tbl c s (take 2 cc) m)))
   \<and> (r \<in> set (measure_lookup tbl c s (take 2 cc) m) \<longleftrightarrow>
        r \<in> set tbl
        \<and> (\<exists>x. c = Some x \<and> county r = Some x)
        \<and> measure_name r = Some m
        \<and> ((\<exists>x. s = Some x \<and> state r = Some x) \<or> state_code r = Some (take 2 cc)))"
proof -
  have "r \<in> set (measure_lookup tbl c s (take 2 cc) m) \<longleftrightarrow>
      r \<in> set tbl \<and> where_clause c s (take 2 cc) m r = Some True"
    by (simp add: measure_lookup_def set_order_by_year_span_desc)
  then show ?thesis
    using lookup_all_single[of tbl m c s cc] by (simp add: where_clause_True_iff)
qed

text \<open>
  Both branches of the OR are live: the row's state MA differs from the tuple's
  abbreviation NY, and the row is returned because its state\_code is the prefix 25.
\<close>

theorem measure_lookup_iff_witness:
  "state middlesex_row \<noteq> Some (py ''NY'')
   \<and> state_code middlesex_row = Some (take 2 (py ''25017''))
   \<and> middlesex_row \<in> set (measure_lookup [middlesex_row] (Some (py ''Middlesex''))
        (Some (py ''NY'')) (take 2 (py ''25017'')) (py ''Adult obesity''))"
  using measure_lookup_iff[of "[middlesex_row]" "py ''Adult obesity''" "Some (py ''Middlesex'')"
      "Some (py ''NY'')" "py ''25017''" middlesex_row]
  by (simp add: middlesex_row_def py_def)

text \<open>
  The claim as stated fails on a NULL: the resolved tuple and the row have the same
  (missing) county, the same state and the requested measure, and the row is not returned.
\<close>

theorem null_county_never_matches:
  "county_results_of [null_county_mapping] (py ''02139'')
     = [(None, Some (py ''MA''), Some (py ''25017''))]
   \<and> county null_county_row = None
   \<and> state null_county_row = Some (py ''MA'')
   \<and> measure_name null_county_row = Some (py ''Adult obesity'')
   \<and> measure_lookup [null_county_row] None (Some (py ''MA'')) (take 2 (py ''25017''))
        (py ''Adult obesity'') = []"
  by (simp add: county_results_of_def distinct_first_def null_county_mapping_def null_county_row_def
      middlesex_row_def measure_lookup_def where_clause_def order_by_year_span_desc_def)

section \<open>The order of the rows\<close>

lemma cell_le_total: "cell_le a b \<or> cell_le b a"
  by (cases "(a, b)" rule: cell_le.cases) auto

lemma cell_le_trans: "cell_le a b \<Longrightarrow> cell_le b c \<Longrightarrow> cell_le a c"
  by (cases a; cases b; cases c) auto

lemma str_or_empty_mono:
  "cell_le a b \<Longrightarrow> str_or_empty (value_of a) \<le> str_or_empty (value_of b)"
  by (cases "(a, b)" rule: cell_le.cases) (auto simp: str_or_empty_def value_of_def)

lemma sorted_insert_desc:
  assumes "sorted_wrt (\<lambda>a b. cell_le (year_span b) (year_span a)) xs"
  shows "sorted_wrt (\<lambda>a b. cell_le (year_span b) (year_span a)) (insert_desc r xs)"
  using assms
proof (induction xs)
  case Nil
  then show ?case by simp
next
  case (Cons x xs)
  show ?case
  proof (cases "cell_le (year_span x) (year_span r)")
    case True
    have "cell_le (year_span y) (year_span r)" if "y \<in> set xs" for y
      using that Cons.prems True cell_le_trans by auto
    with True Cons.prems show ?thesis by simp
  next
    case False
    then have "cell_le (year_span r) (year_span x)"
      using cell_le_total by blast
    with False Cons show ?thesis
      by (auto simp: set_insert_desc)
  qed
qed

lemma sorted_order_by_year_span_desc:
  "sorted_wrt (\<lambda>a b. cell_le (year_span b) (year_span a)) (order_by_year_span_desc rows)"
proof (induction rows)
  case Nil
  then show ?case by (simp add: order_by_year_span_desc_def)
next
  case (Cons r rows)
  then show ?case
    using sorted_insert_desc[of "order_by_year_span_desc rows" r]
    by (simp add: order_by_year_span_desc_def)
qed

lemma columns_eq: "columns = map py description"
  by (simp add: columns_def description_def lower_def py_def)

lemma result_year_span:
  "map_of (result_of r) (py ''year_span'') = Some (str_or_empty (value_of (year_span r)))"
  by (simp add: result_of_def columns_eq description_def select_list_def py_eq_iff)

text \<open>
  Claim C5. For one resolved county tuple, the rows Measure Lookup returns are in
  descending order of \<open>year_span\<close>, NULL last, and the \<open>year_span\<close> strings of the records
  built from them are in descending order of the lexicographic order on strings (the
  order of the code points, character by character: no number or date is parsed).
\<close>

theorem measure_lookup_sorted_desc:
  "sorted_wrt (\<lambda>a b. cell_le (year_span b) (year_span a)) (measure_lookup tbl c s code m)
   \<and> map (\<lambda>result. map_of result (py ''year_span''))
        (map result_of (measure_lookup tbl c s code m))
      = map (\<lambda>r. Some (str_or_empty (value_of (year_span r)))) (measure_lookup tbl c s code m)
   \<and> sorted_wrt (\<lambda>a b. b \<le> a)
        (map (\<lambda>r. str_or_empty (value_of (year_span r))) (measure_lookup tbl c s code m))"
proof -
  have a: "sorted_wrt (\<lambda>a b. cell_le (year_span b) (year_span a)) (measure_lookup tbl c s code m)"
    by (simp add: measure_lookup_def sorted_order_by_year_span_desc)
  then have "sorted_wrt (\<lambda>a b. str_or_empty (value_of (year_span b)) \<le> str_or_empty (value_of (year_span a)))
      (measure_lookup tbl c s code m)"
    by (rule sorted_wrt_mono_rel[rotated]) (simp add: str_or_empty_mono)
  then have b: "sorted_wrt (\<lambda>a b. b \<le> a)
      (map (\<lambda>r. str_or_empty (value_of (year_span r))) (measure_lookup tbl c s code m))"
    by (simp add: sorted_wrt_map)
  from a b show ?thesis
    by (simp add: result_year_span)
qed

text \<open>
  The order is the order of the text: \<open>999-1000\<close> comes before \<open>2014-2018\<close>, and the row
  without a year span comes last, as the empty string.
\<close>

lemma year_span_order_is_textual:
  "map (\<lambda>r. str_or_empty (value_of (year_span r)))
     (measure_lookup year_span_rows (Some (py ''Middlesex'')) (Some (py ''MA'')) (py ''25'')
        (py ''Adult obesity''))
   = [py ''999-1000'', py ''2014-2018'', []]"
  by (simp add: year_span_rows_def middlesex_row_def measure_lookup_def where_clause_def
      order_by_year_span_desc_def str_or_empty_def value_of_def py_def)

section \<open>The successful response\<close>

lemma measure_lookup_subset: "set (measure_lookup tbl c s code m) \<subseteq> set tbl"
  by (auto simp: measure_lookup_def set_order_by_year_span_desc)

lemma lookup_all_rows:
  assumes "lookup_all chr m cr res = Inr (Some out)"
  shows "\<exists>rows. out = res @ map result_of rows
           \<and> (rows \<noteq> [] \<longrightarrow> (\<exists>tbl. chr = Some tbl \<and> set rows \<subseteq> set tbl))"
  using assms
proof (induction chr m cr res rule: lookup_all.induct)
  case (1 chr measure_p results)
  then have "out = results @ map result_of []" by simp
  then show ?case by blast
next
  case (2 chr measure_p county_p state_abbr code rest results)
  from "2.prems" obtain cc tbl where cc: "code = Some cc" and tbl: "chr = Some tbl"
    by (auto split: option.splits)
  let ?here = "measure_lookup tbl county_p state_abbr (take 2 cc) measure_p"
  from "2.prems" cc tbl
  have "lookup_all chr measure_p rest (results @ map result_of ?here) = Inr (Some out)"
    by simp
  from "2.IH"[OF cc tbl this] obtain rows where
    rows: "out = (results @ map result_of ?here) @ map result_of rows"
      "rows \<noteq> [] \<longrightarrow> set rows \<subseteq> set tbl"
    using tbl by auto
  have "out = results @ map result_of (?here @ rows)"
    using rows(1) by simp
  moreover have "set (?here @ rows) \<subseteq> set tbl"
    using rows(2) measure_lookup_subset[of tbl county_p state_abbr "take 2 cc" measure_p]
    by auto
  ultimately show ?case
    using tbl by blast
qed

lemma get_county_data_rows:
  assumes "get_county_data db z m = Inr (Some results)" and "results \<noteq> []"
  shows "\<exists>rows tbl. results = map result_of rows \<and> rows \<noteq> []
           \<and> county_health_rankings db = Some tbl \<and> set rows \<subseteq> set tbl"
proof -
  from assms obtain zc where
    "lookup_all (county_health_rankings db) m (county_results_of zc z) [] = Inr (Some results)"
    by (auto simp: get_county_data_def Let_def split: if_splits option.splits)
  from lookup_all_rows[OF this] assms(2) show ?thesis by auto
qed

text \<open>The record of a row: each column name with the string of the row's value.\<close>

lemma result_of_columns:
  "result_of row =
     map (\<lambda>(k, v). (k, str_or_empty v))
       [(py ''confidence_interval_lower_bound'', confidence_interval_lower_bound row),
        (py ''confidence_interval_upper_bound'', confidence_interval_upper_bound row),
        (py ''county'', value_of (county row)),
        (py ''county_code'', county_code row),
        (py ''data_release_year'', data_release_year row),
        (py ''denominator'', denominator row),
        (py ''fipscode'', fipscode row),
        (py ''measure_id'', measure_id row),
        (py ''measure_name'', value_of (measure_name row)),
        (py ''numerator'', numerator row),
        (py ''raw_value'', raw_value row),
        (py ''state'', value_of (state row)),
        (py ''state_code'', value_of (state_code row)),
        (py ''year_span'', value_of (year_span row))]"
  by (simp add: result_of_def columns_eq description_def select_list_def)

lemma dispatch_exn: "dispatch (Inl e) = bad_request \<or> dispatch (Inl e) = server_error"
  by (cases e) simp_all

lemma county_data_cases:
  "snd (county_data db req) \<in> {400, 418, 500}
   \<or> (\<exists>z m. county_data db req = dispatch (county_data_view db z m))"
proof (cases "validate_request (county_data_view db) req")
  case (Inl e)
  then show ?thesis
    using dispatch_exn[of e] status_simps by (auto simp: county_data_def)
next
  case (Inr r)
  then have "snd r \<in> {400, 418} \<or> (\<exists>z m. county_data_view db z m = Inr r)"
    using status_simps(1-6)
    by (auto simp: validate_request_def split: if_splits sum.splits json.splits option.splits)
  then show ?thesis
  proof
    assume "snd r \<in> {400, 418}"
    with Inr show ?thesis by (auto simp: county_data_def)
  next
    assume "\<exists>z m. county_data_view db z m = Inr r"
    then obtain z m where "county_data_view db z m = Inr r" by blast
    with Inr have "county_data db req = dispatch (county_data_view db z m)"
      by (simp add: county_data_def)
    then show ?thesis by blast
  qed
qed

text \<open>
  Claim C7. A response of status 200 from POST /county\_data is a JSON array with one
  object for each row fetched from the rankings table. Each object has the fourteen
  lower-case column names as its keys, and the value under each key is a JSON string made
  from the value the row holds in that column, whatever its storage class: the empty
  string for NULL, the decimal digits for an integer, the printed form for a float, the
  text itself for text, the \<open>repr\<close> for a blob. No value is null or a number.
\<close>

theorem success_values_are_strings:
  assumes "county_data db req = (b, 200)"
  shows "\<exists>rows tbl. rows \<noteq> [] \<and> county_health_rankings db = Some tbl \<and> set rows \<subseteq> set tbl
     \<and> b = Jsonify (JArray (map (\<lambda>row. JObject
          (map (\<lambda>(k, v). (k, JString (case v of
                   SqlNull \<Rightarrow> []
                 | SqlInteger i \<Rightarrow> str_int i
                 | SqlReal r \<Rightarrow> r
                 | SqlText s \<Rightarrow> s
                 | SqlBlob bs \<Rightarrow> repr_bytes bs)))
             [(py ''confidence_interval_lower_bound'', confidence_interval_lower_bound row),
              (py ''confidence_interval_upper_bound'', confidence_interval_upper_bound row),
              (py ''county'', value_of (county row)),
              (py ''county_code'', county_code row),
              (py ''data_release_year'', data_release_year row),
              (py ''denominator'', denominator row),
              (py ''fipscode'', fipscode row),
              (py ''measure_id'', measure_id row),
              (py ''measure_name'', value_of (measure_name row)),
              (py ''numerator'', numerator row),
              (py ''raw_value'', raw_value row),
              (py ''state'', value_of (state row)),
              (py ''state_code'', value_of (state_code row)),
              (py ''year_span'', value_of (year_span row))])) rows))"
proof -
  from assms county_data_cases[of db req] obtain z m where
    v: "dispatch (county_data_view db z m) = (b, 200)"
    by auto
  have "\<exists>results. results \<noteq> [] \<and> get_county_data db z m = Inr (Some results)
      \<and> b = Jsonify (jsonify_results results)"
  proof -
    have "server_error \<noteq> (b, 200)" "database_error_response \<noteq> (b, 200)"
      "no_data_response \<noteq> (b, 200)"
      by (simp_all add: server_error_def database_error_response_def no_data_response_def)
    then show ?thesis
      using view_outcomes[of db z m] v by auto
  qed
  then obtain results where
    r: "results \<noteq> []" "get_county_data db z m = Inr (Some results)"
      "b = Jsonify (jsonify_results results)"
    by blast
  from get_county_data_rows[OF r(2,1)] obtain rows tbl where
    rows: "results = map result_of rows" "rows \<noteq> []" "county_health_rankings db = Some tbl"
      "set rows \<subseteq> set tbl"
    by blast
  have "jsonify_results (map result_of rows) =
      JArray (map (\<lambda>row. JObject
          (map (\<lambda>(k, v). (k, JString (case v of
                   SqlNull \<Rightarrow> []
                 | SqlInteger i \<Rightarrow> str_int i
                 | SqlReal r \<Rightarrow> r
                 | SqlText s \<Rightarrow> s
                 | SqlBlob bs \<Rightarrow> repr_bytes bs)))
             [(py ''confidence_interval_lower_bound'', confidence_interval_lower_bound row),
              (py ''confidence_interval_upper_bound'', confidence_interval_upper_bound row),
              (py ''county'', value_of (county row)),
              (py ''county_code'', county_code row),
              (py ''data_release_year'', data_release_year row),
              (py ''denominator'', denominator row),
              (py ''fipscode'', fipscode row),
              (py ''measure_id'', measure_id row),
              (py ''measure_name'', value_of (measure_name row)),
              (py ''numerator'', numerator row),
              (py ''raw_value'', raw_value row),
              (py ''state'', value_of (state row)),
              (py ''state_code'', value_of (state_code row)),
              (py ''year_span'', value_of (year_span row))])) rows)"
    by (simp add: jsonify_results_def result_of_columns str_or_empty_def)
  with r(3) rows show ?thesis by auto
qed

text \<open>
  The response for the example row: the integers 2018, -1 and 11, the float 0.23, the
  blob and the NULL numerator all arrive as strings.
\<close>

lemma middlesex_response:
  "county_data middlesex_store example_request
     = (Jsonify (JArray [JObject
         [(py ''confidence_interval_lower_bound'', JString (py ''0.21'')),
          (py ''confidence_interval_upper_bound'', JString (py ''0.25'')),
          (py ''county'', JString (py ''Middlesex'')),
          (py ''county_code'', JString (py ''b'' @ [39] @ py ''017'' @ [39])),
          (py ''data_release_year'', JString (py ''2018'')),
          (py ''denominator'', JString (py ''-1'')),
          (py ''fipscode'', JString (py ''25017'')),
          (py ''measure_id'', JString (py ''11'')),
          (py ''measure_name'', JString (py ''Adult obesity'')),
          (py ''numerator'', JString []),
          (py ''raw_value'', JString (py ''0.23'')),
          (py ''state'', JString (py ''MA'')),
          (py ''state_code'', JString (py ''25'')),
          (py ''year_span'', JString (py ''2014-2018''))]]), 200)"
proof -
  have nt: "dict_get [(py ''zip'', JString (py ''02139'')),
       (py ''measure_name'', JString (py ''Adult obesity''))] (py ''coffee'')
     \<noteq> JString (py ''teapot'')"
    by (simp add: example_fields_lookup(1))
  have z: "isdigit (py ''02139'')" "length (py ''02139'') = 5"
    by (simp_all add: isdigit_def in_ranges_def digit_ranges_def py_def)
  have "validate_request (county_data_view middlesex_store) example_request
      = county_data_view middlesex_store (py ''02139'') (py ''Adult obesity'')"
    by (rule valid_request_runs_view[OF example_request_fields nt example_fields_lookup(2) z
          example_fields_lookup(3) adult_obesity_valid])
  moreover have "get_county_data middlesex_store (py ''02139'') (py ''Adult obesity'')
      = Inr (Some [result_of middlesex_row])"
    by (simp add: get_county_data_def middlesex_store_def county_results_of_def
        distinct_first_def measure_lookup_def where_clause_def order_by_year_span_desc_def
        middlesex_row_def py_def)
  moreover have "jsonify_results [result_of middlesex_row] =
      JArray [JObject
         [(py ''confidence_interval_lower_bound'', JString (py ''0.21'')),
          (py ''confidence_interval_upper_bound'', JString (py ''0.25'')),
          (py ''county'', JString (py ''Middlesex'')),
          (py ''county_code'', JString (py ''b'' @ [39] @ py ''017'' @ [39])),
          (py ''data_release_year'', JString (py ''2018'')),
          (py ''denominator'', JString (py ''-1'')),
          (py ''fipscode'', JString (py ''25017'')),
          (py ''measure_id'', JString (py ''11'')),
          (py ''measure_name'', JString (py ''Adult obesity'')),
          (py ''numerator'', JString []),
          (py ''raw_value'', JString (py ''0.23'')),
          (py ''state'', JString (py ''MA'')),
          (py ''state_code'', JString (py ''25'')),
          (py ''year_span'', JString (py ''2014-2018''))]]"
    by (simp add: jsonify_results_def result_of_columns middlesex_row_def str_or_empty_def
        value_of_def str_int_def digits.simps repr_bytes_def repr_byte_def py_def)
  ultimately show ?thesis
    by (simp add: county_data_def county_data_view_def)
qed

theorem success_values_are_strings_witness:
  "county_data middlesex_store example_request
     = (Jsonify (JArray [JObject
         [(py ''confidence_interval_lower_bound'', JString (py ''0.21'')),
          (py ''confidence_interval_upper_bound'', JString (py ''0.25'')),
          (py ''county'', JString (py ''Middlesex'')),
          (py ''county_code'', JString (py ''b'' @ [39] @ py ''017'' @ [39])),
          (py ''data_release_year'', JString (py ''2018'')),
          (py ''denominator'', JString (py ''-1'')),
          (py ''fipscode'', JString (py ''25017'')),
          (py ''measure_id'', JString (py ''11'')),
          (py ''measure_name'', JString (py ''Adult obesity'')),
          (py ''numerator'', JString []),
          (py ''raw_value'', JString (py ''0.23'')),
          (py ''state'', JString (py ''MA'')),
          (py ''state_code'', JString (py ''25'')),
          (py ''year_span'', JString (py ''2014-2018''))]]), 200)
   \<and> (\<exists>rows tbl. rows \<noteq> [] \<and> county_health_rankings middlesex_store = Some tbl
        \<and> set rows \<subseteq> set tbl
        \<and> fst (county_data middlesex_store example_request)
            = Jsonify (JArray (map (\<lambda>row. JObject
          (map (\<lambda>(k, v). (k, JString (case v of
                   SqlNull \<Rightarrow> []
                 | SqlInteger i \<Rightarrow> str_int i
                 | SqlReal r \<Rightarrow> r
                 | SqlText s \<Rightarrow> s
                 | SqlBlob bs \<Rightarrow> repr_bytes bs)))
             [(py ''confidence_interval_lower_bound'', confidence_interval_lower_bound row),
              (py ''confidence_interval_upper_bound'', confidence_interval_upper_bound row),
              (py ''county'', value_of (county row)),
              (py ''county_code'', county_code row),
              (py ''data_release_year'', data_release_year row),
              (py ''denominator'', denominator row),
              (py ''fipscode'', fipscode row),
              (py ''measure_id'', measure_id row),
              (py ''measure_name'', value_of (measure_name row)),
              (py ''numerator'', numerator row),
              (py ''raw_value'', raw_value row),
              (py ''state'', value_of (state row)),
              (py ''state_code'', value_of (state_code row)),
              (py ''year_span'', value_of (year_span row))])) rows)))"
  using success_values_are_strings[OF middlesex_response] middlesex_response
  by (simp del: map_eq_conv list.map)

text \<open>
  What \<open>str\<close> makes of each kind of value: a negative integer, zero, and bytes that need
  the other quote and escapes.
\<close>

lemma str_or_empty_examples:
  "str_or_empty SqlNull = []"
  "str_or_empty (SqlInteger (- 42)) = py ''-42''"
  "str_or_empty (SqlInteger 0) = py ''0''"
  "str_or_empty (SqlReal (py ''1e-05'')) = py ''1e-05''"
  "str_or_empty (SqlText (py ''2014-2018'')) = py ''2014-2018''"
  "str_or_empty (SqlBlob [37, 0, 39]) = [98, 34] @ py ''%'' @ [92] @ py ''x00'' @ [39, 34]"
  by (simp_all add: str_or_empty_def str_int_def digits.simps repr_bytes_def repr_byte_def
      hexdigit_def py_def)

section \<open>The loader's calls\<close>





















text \<open>
  A header cell with a comma: the table has three columns, the INSERT statement two
  placeholders, and the run fails at its first flush.
\<close>

lemma comma_header_fails:
  "main comma_header_input =
     \<lparr>db_calls = [Drop_table, Create_table, Create_index,
                  Executemany [[Some (py ''1''), Some (py ''2'')]], Rollback, Close],
      table_after = Some [], exit_status = 1\<rparr>"
  by (simp add: comma_header_input_def main_def executemany_ok_def failed_def flushes_def
      processed_row_def strip_def in_ranges_def space_ranges_def batch_size_def py_def)

end
